theory Spec2Isabelle
  imports Main "HOL-Library.AList"
begin

section \<open>Shared Python values\<close>

text \<open>
  The two modules of the repository are Python 2 code on top of Django. Exceptions
  are values of the type \<open>exn\<close>; a call that may raise returns \<open>exn + 'a\<close>
  with \<open>Inl\<close> for the raised exception.
\<close>

record response =
  status_code :: int
  content :: string

datatype exn =
    AttributeError
  | TypeError
  | ValueError
  | Http404
  | DoesNotExist
  | ValidationError string
  | RequestsError string
  | MailgunAPIError response

text \<open>What \<open>json.loads\<close> can return (floats are left out).\<close>

datatype json =
    JNull
  | JBool bool
  | JNum int
  | JStr string
  | JArr "json list"
  | JObj "(string \<times> json) list"

text \<open>\<open>d[key] = v\<close> on a value returned by \<open>json.loads\<close>: only a dict
  supports assignment by a string key; every other JSON value raises \<open>TypeError\<close>.\<close>

fun setitem :: "json \<Rightarrow> string \<Rightarrow> json \<Rightarrow> exn + json" where
  "setitem (JObj kvs) k v = Inr (JObj (AList.update k v kvs))"
| "setitem _ k v = Inl TypeError"

text \<open>\<open>sep.join(xs)\<close>.\<close>

fun join :: "string \<Rightarrow> string list \<Rightarrow> string" where
  "join sep [] = []"
| "join sep [x] = x"
| "join sep (x # y # ys) = x @ sep @ join sep (y # ys)"

text \<open>\<open>str(n)\<close> for an integer.\<close>

fun str_nat :: "nat \<Rightarrow> string" where
  "str_nat n =
     (if n < 10 then [''0123456789'' ! n]
      else str_nat (n div 10) @ [''0123456789'' ! (n mod 10)])"

declare str_nat.simps [simp del]

definition str_int :: "int \<Rightarrow> string" where
  "str_int i = (if i < 0 then CHR ''-'' # str_nat (nat (- i)) else str_nat (nat i))"

section \<open>The Mailgun backend: \<open>grapevine/emails/backends/mailgun.py\<close>\<close>

text \<open>\<open>django.conf.settings\<close>: the attributes that are set.
  \<open>getattr(settings, name)\<close> raises \<open>AttributeError\<close> on a missing one.\<close>

type_synonym settings = "string \<rightharpoonup> string"

definition getattr_settings :: "settings \<Rightarrow> string \<Rightarrow> exn + string" where
  "getattr_settings st name =
     (case st name of None \<Rightarrow> Inl AttributeError | Some v \<Rightarrow> Inr v)"

text \<open>\<open>x or y\<close> for an optional keyword argument \<open>x\<close> (\<open>None\<close> when it was
  not passed): \<open>y\<close> is evaluated only when \<open>x\<close> is \<open>None\<close> or the empty string.\<close>

definition py_or :: "string option \<Rightarrow> (exn + string) \<Rightarrow> exn + string" where
  "py_or x y = (case x of None \<Rightarrow> y | Some s \<Rightarrow> if s \<noteq> [] then Inr s else y)"

record email_backend =
  fail_silently :: bool
  access_key :: string
  server_name :: string
  api_url :: string
  last_response :: "response option"
  failure_reason :: "string option"

text \<open>The body of the \<open>try\<close> in \<open>__init__\<close> (lines 36-37): the access key is
  resolved first, then the server name.\<close>

definition resolve_credentials ::
  "settings \<Rightarrow> string option \<Rightarrow> string option \<Rightarrow> exn + (string \<times> string)" where
  "resolve_credentials st kw_access_key kw_server_name =
     (case py_or kw_access_key (getattr_settings st ''MAILGUN_ACCESS_KEY'') of
        Inl e \<Rightarrow> Inl e
      | Inr a \<Rightarrow>
          (case py_or kw_server_name (getattr_settings st ''MAILGUN_SERVER_NAME'') of
             Inl e \<Rightarrow> Inl e
           | Inr s \<Rightarrow> Inr (a, s)))"

text \<open>\<open>EmailBackend.__init__\<close>. In the handler of \<open>AttributeError\<close>, the
  fail-silent branch runs \<open>self._access_key, self._server_name = None\<close>, which unpacks
  \<open>None\<close> into two targets and so raises \<open>TypeError\<close>; otherwise the
  \<open>AttributeError\<close> is raised again. The attributes \<open>r\<close> and
  \<open>failure_reason\<close> are not set by the constructor (\<open>None\<close> here).\<close>

definition EmailBackend_init ::
  "settings \<Rightarrow> bool \<Rightarrow> string option \<Rightarrow> string option \<Rightarrow> exn + email_backend" where
  "EmailBackend_init st fs kw_access_key kw_server_name =
     (case resolve_credentials st kw_access_key kw_server_name of
        Inl e \<Rightarrow>
          (if e = AttributeError then (if fs then Inl TypeError else Inl e) else Inl e)
      | Inr (a, s) \<Rightarrow>
          Inr \<lparr>fail_silently = fs, access_key = a, server_name = s,
               api_url = ''https://api.mailgun.net/v2/'' @ s @ ''/'',
               last_response = None, failure_reason = None\<rparr>)"

text \<open>A keyword argument or a setting supplies the credential \<open>name\<close>.\<close>

definition credential_available :: "string option \<Rightarrow> settings \<Rightarrow> string \<Rightarrow> bool" where
  "credential_available kw st name = ((kw \<noteq> None \<and> kw \<noteq> Some []) \<or> st name \<noteq> None)"

record email_message =
  recipients :: "string list"
  from_email :: string
  encoding :: "string option"
  as_string :: string

record http_request =
  url :: string
  auth :: "string \<times> string"
  data_to :: string
  data_from :: string
  files_message :: string

text \<open>What the statement \<open>self.r = requests.post(...)\<close> does: it raises, or it
  returns a response.\<close>

datatype post_result = PostRaised exn | PostReturned response

text \<open>The library functions \<open>_send\<close> calls, as parameters:
  \<open>sanitize_address\<close> of Django, \<open>requests.post\<close> (the network), and
  \<open>json.loads\<close> (\<open>None\<close> when it raises \<open>ValueError\<close>) and \<open>json.dumps\<close>.\<close>

record mail_env =
  sanitize_address :: "string \<Rightarrow> string option \<Rightarrow> string"
  post :: "http_request \<Rightarrow> post_result"
  json_loads :: "string \<Rightarrow> json option"
  json_dumps :: "json \<Rightarrow> string"

text \<open>One run of \<open>_send\<close>: what it returned or raised, the backend object
  afterwards, and the requests handed to \<open>requests.post\<close>.\<close>

record send_run =
  returned :: "exn + bool"
  backend_after :: email_backend
  posted :: "http_request list"

definition build_request :: "mail_env \<Rightarrow> email_backend \<Rightarrow> email_message \<Rightarrow> http_request" where
  "build_request env self m =
     \<lparr>url = api_url self @ ''messages.mime'',
      auth = (''api'', access_key self),
      data_to = join '', '' (map (\<lambda>addr. sanitize_address env addr (encoding m)) (recipients m)),
      data_from = sanitize_address env (from_email m) (encoding m),
      files_message = as_string m\<rparr>"

text \<open>The part of \<open>_send\<close> after the \<open>try\<close> (lines 81-89), on the response
  stored in \<open>self.r\<close>.\<close>

definition handle_response ::
  "mail_env \<Rightarrow> email_backend \<Rightarrow> response \<Rightarrow> (exn + bool) \<times> email_backend" where
  "handle_response env self resp =
     (if status_code resp \<noteq> 200 then
        (case json_loads env (content resp) of
           None \<Rightarrow> (Inl ValueError, self)
         | Some failure_dict \<Rightarrow>
             (case setitem failure_dict ''status'' (JNum (status_code resp)) of
                Inl e \<Rightarrow> (Inl e, self)
              | Inr d \<Rightarrow>
                  (let self' = self\<lparr>failure_reason := Some (json_dumps env d)\<rparr>
                   in if \<not> fail_silently self' then (Inl (MailgunAPIError resp), self')
                      else (Inr False, self'))))
      else (Inr True, self))"

text \<open>\<open>EmailBackend._send\<close>.\<close>

definition EmailBackend_send :: "mail_env \<Rightarrow> email_backend \<Rightarrow> email_message \<Rightarrow> send_run" where
  "EmailBackend_send env self m =
     (if recipients m = [] then \<lparr>returned = Inr False, backend_after = self, posted = []\<rparr>
      else
        (let req = build_request env self m in
         case post env req of
           PostRaised e \<Rightarrow>
             (if \<not> fail_silently self
              then \<lparr>returned = Inl e, backend_after = self, posted = [req]\<rparr>
              else \<lparr>returned = Inr False, backend_after = self, posted = [req]\<rparr>)
         | PostReturned resp \<Rightarrow>
             (let (res, self') = handle_response env (self\<lparr>last_response := Some resp\<rparr>) resp
              in \<lparr>returned = res, backend_after = self', posted = [req]\<rparr>)))"

section \<open>The admin views: \<open>grapevine/admin_base.py\<close>\<close>

text \<open>The Python values a model column or a cleaned form field holds. A
  \<open>datetime\<close> is kept by its text; it is true in a condition whatever it holds.\<close>

datatype pyval = VNone | VBool bool | VInt int | VStr string | VDateTime string

text \<open>\<open>if v:\<close>\<close>

fun truthy :: "pyval \<Rightarrow> bool" where
  "truthy VNone = False"
| "truthy (VBool b) = b"
| "truthy (VInt i) = (i \<noteq> 0)"
| "truthy (VStr s) = (s \<noteq> [])"
| "truthy (VDateTime d) = True"

text \<open>An empty submission: a field left blank cleans to \<open>None\<close> or to the empty
  string, and a checkbox left unchecked cleans to \<open>False\<close>.\<close>

fun is_empty :: "pyval \<Rightarrow> bool" where
  "is_empty VNone = True"
| "is_empty (VStr s) = (s = [])"
| "is_empty (VBool b) = (\<not> b)"
| "is_empty _ = False"

text \<open>\<open>'%s' % v\<close>\<close>

fun str_pyval :: "pyval \<Rightarrow> string" where
  "str_pyval VNone = ''None''"
| "str_pyval (VBool b) = (if b then ''True'' else ''False'')"
| "str_pyval (VInt i) = str_int i"
| "str_pyval (VStr s) = s"
| "str_pyval (VDateTime d) = d"

record user =
  is_authenticated :: bool
  is_active :: bool
  is_staff :: bool
  email :: string
  user_pk :: "int option"

text \<open>The request: its user, its method, the values of
  \<open>request.POST.getlist('bulk_edit_obj_id')\<close> and
  \<open>request.POST.get('recipient_address')\<close>.\<close>

record request =
  user :: user
  http_method :: string
  POST_bulk_edit_obj_id :: "int list"
  POST_recipient_address :: "string option"

text \<open>A row of the model's table: the primary key and the columns by name
  (\<open>scheduled_send_time\<close>, \<open>cancelled_at_send_time\<close>, \<open>is_sent\<close>,
  \<open>message_id\<close>, \<open>template_id\<close>, \<open>transport_id\<close>, ...). The queryset's
  \<open>update(**update_dict)\<close> writes columns by name, so they are a map.\<close>

record sendable =
  pk :: int
  columns :: "string \<rightharpoonup> pyval"

definition col :: "sendable \<Rightarrow> string \<Rightarrow> pyval" where
  "col s name = (case columns s name of None \<Rightarrow> VNone | Some v \<Rightarrow> v)"

datatype action = ADDITION | CHANGE | DELETION

record log_entry =
  user_id :: "int option"
  content_type_id :: int
  object_id :: int
  object_repr :: string
  action_flag :: action
  change_message :: string

datatype level = SUCCESS | ERROR

text \<open>What a view answers: a response with a status, a redirect, a page rendered by
  \<open>render_view\<close> from a template (its context is left out), the login answer of the
  admin site, or nothing (the Python function returns \<open>None\<close>).\<close>

datatype http_response =
    HttpResponse nat
  | HttpResponseRedirect string
  | TemplateResponse string
  | AdminLogin
  | NoResponse

text \<open>The state the views act on: the model's table, the templates by id, the admin
  log (\<open>LogEntry.objects.log_action\<close>), the messages added to the request
  (\<open>messages.add_message\<close>), and the calls of \<open>obj.send\<close> made so far
  (primary key, recipient address, test flag).\<close>

record world =
  sendables :: "sendable list"
  templates :: "(int \<times> string) list"
  log_entries :: "log_entry list"
  flash :: "(level \<times> string) list"
  send_calls :: "(int \<times> string option \<times> bool) list"

text \<open>The admin class and what it takes from the model and the framework:
  \<open>self.model._meta\<close>, the primary key of the model's \<open>ContentType\<close>,
  \<open>__unicode__\<close> and \<open>__repr__\<close>, \<open>reverse\<close>, \<open>json.dumps\<close> on the
  \<open>log_dict\<close>, and the model's method \<open>send\<close>, which returns whether it sent
  and leaves the object and the state changed, or raises.\<close>

record model_admin =
  app_label :: string
  model_name :: string
  verbose_name :: string
  content_type_pk :: int
  unicode :: "sendable \<Rightarrow> string"
  repr :: "pyval \<Rightarrow> string"
  reverse :: "string \<Rightarrow> int list \<Rightarrow> string"
  log_dumps :: "(string \<times> string) list \<Rightarrow> string"
  obj_send :: "sendable \<Rightarrow> string option \<Rightarrow> bool \<Rightarrow> world \<Rightarrow> exn + (bool \<times> sendable \<times> world)"

definition admin_view_info :: "model_admin \<Rightarrow> string" where
  "admin_view_info self = app_label self @ ''_'' @ model_name self"

definition log_action :: "log_entry \<Rightarrow> world \<Rightarrow> world" where
  "log_action e w = w\<lparr>log_entries := log_entries w @ [e]\<rparr>"

definition add_message :: "level \<Rightarrow> string \<Rightarrow> world \<Rightarrow> world" where
  "add_message lv msg w = w\<lparr>flash := flash w @ [(lv, msg)]\<rparr>"

definition get_object_or_404 :: "sendable list \<Rightarrow> int \<Rightarrow> exn + sendable" where
  "get_object_or_404 rows obj_id =
     (case find (\<lambda>s. pk s = obj_id) rows of None \<Rightarrow> Inl Http404 | Some s \<Rightarrow> Inr s)"

subsection \<open>Bulk edits\<close>

text \<open>The form after \<open>full_clean()\<close>. The form class (\<open>AdminBulkEditForm\<close> of
  \<open>grapevine/forms.py\<close>) is not among the sources, so the outcome of each field's
  \<open>clean\<close> on the submitted data is an input: \<open>Inr v\<close> when the field cleans to
  \<open>v\<close>, \<open>Inl msg\<close> when it raises \<open>ValidationError(msg)\<close>, as the split
  date/time field does on a malformed or partial date/time pair. \<open>full_clean\<close> is
  Django's (1.6 or later, which the module needs for \<open>_meta.model_name\<close>): it
  raises nothing; a field that cleans is stored in \<open>cleaned_data\<close>, and the
  \<open>ValidationError\<close> of a field is caught, recorded in \<open>errors\<close> and the
  field removed from \<open>cleaned_data\<close>.\<close>

record form =
  cleaned_data :: "(string \<times> pyval) list"
  errors :: "(string \<times> string) list"

fun clean_field :: "form \<Rightarrow> string \<times> (string + pyval) \<Rightarrow> form" where
  "clean_field fm (name, Inr v) = fm\<lparr>cleaned_data := AList.update name v (cleaned_data fm)\<rparr>"
| "clean_field fm (name, Inl msg) =
     fm\<lparr>cleaned_data := AList.delete name (cleaned_data fm),
        errors := AList.update name msg (errors fm)\<rparr>"

definition full_clean :: "(string \<times> (string + pyval)) list \<Rightarrow> form" where
  "full_clean outcomes = foldl clean_field \<lparr>cleaned_data = [], errors = []\<rparr> outcomes"

text \<open>The loop of lines 310-313: \<open>update_dict\<close> keeps the cleaned fields whose value
  is true in a condition; \<open>log_dict\<close> holds their \<open>__repr__\<close>.\<close>

definition update_dict_of :: "form \<Rightarrow> (string \<times> pyval) list" where
  "update_dict_of fm = filter (\<lambda>(field_name, v). truthy v) (cleaned_data fm)"

text \<open>The fields of the submission that are present with a non-empty value.\<close>

definition non_empty_fields :: "form \<Rightarrow> string list" where
  "non_empty_fields fm = map fst (filter (\<lambda>(field_name, v). \<not> is_empty v) (cleaned_data fm))"

definition log_dict_of :: "model_admin \<Rightarrow> (string \<times> pyval) list \<Rightarrow> (string \<times> string) list" where
  "log_dict_of self upd = map (\<lambda>(field_name, v). (field_name, repr self v)) upd"

text \<open>\<open>self.model.objects.filter(pk__in=ids)\<close> and its \<open>update\<close>.\<close>

definition filter_pk_in :: "int list \<Rightarrow> sendable list \<Rightarrow> sendable list" where
  "filter_pk_in ids rows = filter (\<lambda>s. pk s \<in> set ids) rows"

definition queryset_update ::
  "int list \<Rightarrow> (string \<times> pyval) list \<Rightarrow> sendable list \<Rightarrow> sendable list" where
  "queryset_update ids upd rows =
     map (\<lambda>s. if pk s \<in> set ids then s\<lparr>columns := columns s ++ map_of upd\<rparr> else s) rows"

definition bulk_edit_log_entry ::
  "model_admin \<Rightarrow> request \<Rightarrow> (string \<times> string) list \<Rightarrow> sendable \<Rightarrow> log_entry" where
  "bulk_edit_log_entry self req log_dict sr =
     \<lparr>user_id = user_pk (user req),
      content_type_id = content_type_pk self,
      object_id = pk sr,
      object_repr = unicode self sr,
      action_flag = CHANGE,
      change_message =
        ''Applied '' @ log_dumps self log_dict @ '' to ''
        @ (if truthy (col sr ''message_id'') then ''SENT'' else ''UNSENT'')
        @ '' '' @ verbose_name self @ '' Id: '' @ str_int (pk sr)\<rparr>"

text \<open>\<open>FreezableTemplateAdminMixin.perform_bulk_edits\<close>. The guard of line 294 is
  \<open>not request.user.is_authenticated() and request.user.is_staff\<close>. The queryset is
  lazy: the loop of line 320 reads the rows again, after the update.\<close>

definition perform_bulk_edits ::
  "model_admin \<Rightarrow> request \<Rightarrow> (string \<times> (string + pyval)) list \<Rightarrow> world
     \<Rightarrow> (exn + http_response) \<times> world" where
  "perform_bulk_edits self req outcomes w =
     (if \<not> is_authenticated (user req) \<and> is_staff (user req) then (Inr (HttpResponse 401), w)
      else if http_method req \<noteq> ''POST'' then (Inr (HttpResponse 405), w)
      else
        (let bulk_edit_ids = POST_bulk_edit_obj_id req;
             fm = full_clean outcomes;
             update_dict = update_dict_of fm;
             log_dict = log_dict_of self update_dict;
             w1 = (if update_dict \<noteq> [] then
                     (let rows = queryset_update bulk_edit_ids update_dict (sendables w)
                      in foldl (\<lambda>acc sr. log_action (bulk_edit_log_entry self req log_dict sr) acc)
                           (w\<lparr>sendables := rows\<rparr>) (filter_pk_in bulk_edit_ids rows))
                   else w);
             w2 = add_message SUCCESS
                    (str_int (int (length bulk_edit_ids)) @ '' messages updated successfully.'') w1
         in (Inr (HttpResponseRedirect
                    (''/admin/'' @ app_label self @ ''/'' @ model_name self @ ''/'')), w2)))"

subsection \<open>Sending\<close>

text \<open>One run of \<open>send_message\<close>: what it returned or raised, the object it was
  given afterwards, and the state afterwards.\<close>

record view_run =
  result :: "exn + http_response"
  obj_after :: sendable
  world_after :: world

definition change_url :: "model_admin \<Rightarrow> int \<Rightarrow> string" where
  "change_url self obj_pk = reverse self (''admin:'' @ admin_view_info self @ ''_change'') [obj_pk]"

text \<open>\<open>SendableAdminMixin.send_message\<close>. A recipient address that is \<open>None\<close> or
  empty is false in the condition of line 227. \<open>obj.transport.pk\<close> raises
  \<open>AttributeError\<close> when the object has no transport.\<close>

definition send_message ::
  "model_admin \<Rightarrow> request \<Rightarrow> sendable \<Rightarrow> bool \<Rightarrow> string option \<Rightarrow> world \<Rightarrow> view_run" where
  "send_message self req obj is_test recipient_address w =
     (if \<not> is_authenticated (user req) \<or> \<not> is_staff (user req)
      then \<lparr>result = Inl Http404, obj_after = obj, world_after = w\<rparr>
      else if is_test \<and> email (user req) = [] then
        \<lparr>result = Inr (HttpResponseRedirect (change_url self (pk obj))),
         obj_after = obj,
         world_after =
           add_message ERROR ''Current Admin user does not have a specified email address.'' w\<rparr>
      else
        (case obj_send self obj recipient_address is_test
                (w\<lparr>send_calls := send_calls w @ [(pk obj, recipient_address, is_test)]\<rparr>) of
           Inl e \<Rightarrow>
             \<lparr>result = Inl e, obj_after = obj,
              world_after = w\<lparr>send_calls := send_calls w @ [(pk obj, recipient_address, is_test)]\<rparr>\<rparr>
         | Inr (is_sent, obj', w1) \<Rightarrow>
             (if is_sent then
                (let message_beginning = (if is_test then ''Test'' else []);
                     message_ending =
                       (case recipient_address of
                          None \<Rightarrow> []
                        | Some a \<Rightarrow> if a \<noteq> [] then ''to '' @ a else []);
                     w2 = add_message SUCCESS
                            (message_beginning @ '' Message sent '' @ message_ending) w1
                 in case col obj' ''transport_id'' of
                      VNone \<Rightarrow> \<lparr>result = Inl AttributeError, obj_after = obj', world_after = w2\<rparr>
                    | transport_pk \<Rightarrow>
                        \<lparr>result = Inr (HttpResponseRedirect (change_url self (pk obj'))),
                         obj_after = obj',
                         world_after =
                           log_action
                             \<lparr>user_id = user_pk (user req),
                              content_type_id = content_type_pk self,
                              object_id = pk obj',
                              object_repr = unicode self obj',
                              action_flag = CHANGE,
                              change_message =
                                ''Sent '' @ message_beginning @ '' Message Id: ''
                                @ str_pyval transport_pk @ '' for '' @ verbose_name self
                                @ '' Id: '' @ str_int (pk obj')\<rparr> w2\<rparr>)
              else
                \<lparr>result = Inr (HttpResponseRedirect (change_url self (pk obj'))),
                 obj_after = obj',
                 world_after = add_message ERROR ''Problem sending email.'' w1\<rparr>)))"

subsection \<open>Freezing a template\<close>

text \<open>The next id of the template table: one more than the largest id in use.\<close>

definition fresh_id :: "(int \<times> string) list \<Rightarrow> int" where
  "fresh_id ts = fold max (map fst ts) 0 + 1"

text \<open>Modelled from the spec: the model's method \<open>freeze_template\<close> (of
  \<open>mixins.TemplateFreezableSendableMixin\<close>) is not among the sources. It
  "creates a private copy of the template currently referenced by \<open>sendable\<close>,
  rebinds \<open>sendable.templateId\<close> to the copy, leaving the original shared template
  and all other Sendables referencing it untouched". The copy is a new row of the
  template table, under a new id; a sendable that references no template of the table
  raises \<open>DoesNotExist\<close>.\<close>

definition obj_freeze_template :: "sendable \<Rightarrow> world \<Rightarrow> exn + (sendable \<times> world)" where
  "obj_freeze_template obj w =
     (case col obj ''template_id'' of
        VInt t \<Rightarrow>
          (case map_of (templates w) t of
             None \<Rightarrow> Inl DoesNotExist
           | Some body \<Rightarrow>
               (let t' = fresh_id (templates w);
                    obj' = obj\<lparr>columns := (columns obj)(''template_id'' \<mapsto> VInt t')\<rparr>
                in Inr (obj',
                        w\<lparr>templates := templates w @ [(t', body)],
                          sendables := map (\<lambda>s. if pk s = pk obj then obj' else s) (sendables w)\<rparr>)))
      | _ \<Rightarrow> Inl DoesNotExist)"

text \<open>\<open>FreezableTemplateAdminMixin.freeze_template\<close>: the change message of line 349
  reads \<open>obj.template_id\<close> after \<open>obj.freeze_template()\<close> has run.\<close>

definition freeze_template ::
  "model_admin \<Rightarrow> request \<Rightarrow> int \<Rightarrow> world \<Rightarrow> (exn + http_response) \<times> world" where
  "freeze_template self req obj_id w =
     (if \<not> is_authenticated (user req) \<or> \<not> is_staff (user req) then (Inl Http404, w)
      else
        (case get_object_or_404 (sendables w) obj_id of
           Inl e \<Rightarrow> (Inl e, w)
         | Inr obj \<Rightarrow>
             (case obj_freeze_template obj w of
                Inl e \<Rightarrow> (Inl e, w)
              | Inr (obj', w1) \<Rightarrow>
                  (Inr (HttpResponseRedirect (change_url self obj_id)),
                   log_action
                     \<lparr>user_id = user_pk (user req),
                      content_type_id = content_type_pk self,
                      object_id = obj_id,
                      object_repr = unicode self obj',
                      action_flag = CHANGE,
                      change_message =
                        ''Froze TemplateId:'' @ str_pyval (col obj' ''template_id'')
                        @ '' for customization''\<rparr> w1))))"

subsection \<open>The routes\<close>

text \<open>\<open>get_urls\<close> (lines 176-178 and 367-368) installs every view wrapped in
  \<open>self.admin_site.admin_view\<close>; the views are reached in no other way.
  \<open>admin_view\<close> is Django's: a request whose user is not active staff is answered
  by the login of the admin site and the view is not run.\<close>

definition admin_view ::
  "(request \<Rightarrow> world \<Rightarrow> (exn + http_response) \<times> world)
     \<Rightarrow> request \<Rightarrow> world \<Rightarrow> (exn + http_response) \<times> world" where
  "admin_view view req w =
     (if \<not> (is_active (user req) \<and> is_staff (user req)) then (Inr AdminLogin, w)
      else view req w)"

text \<open>\<open>SendableAdminMixin.send_real_message\<close> and \<open>send_test_message\<close>: the
  object is looked up first; a GET renders the confirmation page, a POST sends.\<close>

definition send_real_message ::
  "model_admin \<Rightarrow> int \<Rightarrow> request \<Rightarrow> world \<Rightarrow> (exn + http_response) \<times> world" where
  "send_real_message self obj_id req w =
     (case get_object_or_404 (sendables w) obj_id of
        Inl e \<Rightarrow> (Inl e, w)
      | Inr obj \<Rightarrow>
          (if http_method req = ''GET''
           then (Inr (TemplateResponse ''grapevine/emails/templates/admin/send_real.html''), w)
           else if http_method req = ''POST''
           then (let r = send_message self req obj False None w in (result r, world_after r))
           else (Inr NoResponse, w)))"

definition send_test_message ::
  "model_admin \<Rightarrow> int \<Rightarrow> request \<Rightarrow> world \<Rightarrow> (exn + http_response) \<times> world" where
  "send_test_message self obj_id req w =
     (case get_object_or_404 (sendables w) obj_id of
        Inl e \<Rightarrow> (Inl e, w)
      | Inr obj \<Rightarrow>
          (if http_method req = ''GET''
           then (Inr (TemplateResponse ''grapevine/emails/templates/admin/send_test.html''), w)
           else if http_method req = ''POST''
           then (let r = send_message self req obj True (POST_recipient_address req) w
                 in (result r, world_after r))
           else (Inr NoResponse, w)))"

text \<open>The four mutating routes: \<open>bulk_edits/\<close>, \<open>(.+)/freeze-template/\<close>,
  \<open>(.+)/send-real/\<close> and \<open>(.+)/send-test/\<close>.\<close>

definition bulk_edits_route ::
  "model_admin \<Rightarrow> (string \<times> (string + pyval)) list \<Rightarrow> request \<Rightarrow> world
     \<Rightarrow> (exn + http_response) \<times> world" where
  "bulk_edits_route self outcomes =
     admin_view (\<lambda>req w. perform_bulk_edits self req outcomes w)"

definition freeze_template_route ::
  "model_admin \<Rightarrow> int \<Rightarrow> request \<Rightarrow> world \<Rightarrow> (exn + http_response) \<times> world" where
  "freeze_template_route self obj_id =
     admin_view (\<lambda>req w. freeze_template self req obj_id w)"

definition send_real_route ::
  "model_admin \<Rightarrow> int \<Rightarrow> request \<Rightarrow> world \<Rightarrow> (exn + http_response) \<times> world" where
  "send_real_route self obj_id = admin_view (send_real_message self obj_id)"

definition send_test_route ::
  "model_admin \<Rightarrow> int \<Rightarrow> request \<Rightarrow> world \<Rightarrow> (exn + http_response) \<times> world" where
  "send_test_route self obj_id = admin_view (send_test_message self obj_id)"

text \<open>The answers that deny access: the login of the admin site, \<open>Http404\<close> (the
  guard of \<open>send_message\<close> and \<open>freeze_template\<close>) and status 401 (the guard of
  \<open>perform_bulk_edits\<close>).\<close>

definition access_denied :: "exn + http_response \<Rightarrow> bool" where
  "access_denied r = (r = Inr AdminLogin \<or> r = Inl Http404 \<or> r = Inr (HttpResponse 401))"

section \<open>Example inputs\<close>

text \<open>\<open>json.dumps\<close> with its default separators, on values whose strings need no
  escaping.\<close>

fun dumps_plain :: "json \<Rightarrow> string" where
  "dumps_plain JNull = ''null''"
| "dumps_plain (JBool b) = (if b then ''true'' else ''false'')"
| "dumps_plain (JNum i) = str_int i"
| "dumps_plain (JStr s) = [CHR 0x22] @ s @ [CHR 0x22]"
| "dumps_plain (JArr xs) = ''['' @ join '', '' (map dumps_plain xs) @ '']''"
| "dumps_plain (JObj kvs) =
     ''{'' @ join '', ''
        (map (\<lambda>kv. [CHR 0x22] @ fst kv @ [CHR 0x22] @ '': '' @ dumps_plain (snd kv)) kvs) @ ''}''"

text \<open>A backend built with both credentials, a message to two recipients and one to
  nobody, and the body of a response that rejects the request.\<close>

definition demo_backend :: "bool \<Rightarrow> email_backend" where
  "demo_backend fs =
     \<lparr>fail_silently = fs, access_key = ''key-1'', server_name = ''mg.example.com'',
      api_url = ''https://api.mailgun.net/v2/mg.example.com/'',
      last_response = None, failure_reason = None\<rparr>"

definition demo_message :: email_message where
  "demo_message =
     \<lparr>recipients = [''a@x.com'', ''b@x.com''], from_email = ''ops@x.com'',
      encoding = None, as_string = ''Subject: hi''\<rparr>"

definition no_recipients_message :: email_message where
  "no_recipients_message = demo_message\<lparr>recipients := []\<rparr>"

definition rejection_body :: string where
  "rejection_body = ''{'' @ [CHR 0x22] @ ''message'' @ [CHR 0x22] @ '': ''
     @ [CHR 0x22] @ ''bad'' @ [CHR 0x22] @ ''}''"

definition rejection :: response where
  "rejection = \<lparr>status_code = 400, content = rejection_body\<rparr>"

text \<open>The answer of the provider to a wrong access key: status 401 with the plain text
  \<open>Forbidden\<close>, which is not JSON.\<close>

definition forbidden :: response where
  "forbidden = \<lparr>status_code = 401, content = ''Forbidden''\<rparr>"

text \<open>An environment whose network answers every request with \<open>answer\<close>.\<close>

definition demo_env :: "post_result \<Rightarrow> mail_env" where
  "demo_env answer =
     \<lparr>sanitize_address = (\<lambda>addr enc. addr),
      post = (\<lambda>req. answer),
      json_loads = (\<lambda>s. if s = rejection_body then Some (JObj [(''message'', JStr ''bad'')])
                          else None),
      json_dumps = dumps_plain\<rparr>"

text \<open>An admin class for a model \<open>emails.email\<close>, whose \<open>send\<close> always sends; a
  staff operator with and without an e-mail address, and an authenticated user who is
  not staff; a table of two rows that share template 5.\<close>

definition demo_admin :: model_admin where
  "demo_admin =
     \<lparr>app_label = ''emails'', model_name = ''email'', verbose_name = ''email'',
      content_type_pk = 7,
      unicode = (\<lambda>s. ''Email '' @ str_int (pk s)),
      repr = str_pyval,
      reverse = (\<lambda>name args. name @ ''/'' @ join ''/'' (map str_int args)),
      log_dumps = (\<lambda>kvs. dumps_plain (JObj (map (\<lambda>kv. (fst kv, JStr (snd kv))) kvs))),
      obj_send = (\<lambda>obj addr is_test w. Inr (True, obj, w))\<rparr>"

definition staff_user :: user where
  "staff_user =
     \<lparr>is_authenticated = True, is_active = True, is_staff = True, email = ''ops@x.com'',
      user_pk = Some 1\<rparr>"

definition staff_user_no_email :: user where
  "staff_user_no_email = staff_user\<lparr>email := []\<rparr>"

definition plain_user :: user where
  "plain_user =
     \<lparr>is_authenticated = True, is_active = True, is_staff = False, email = ''u@x.com'',
      user_pk = Some 9\<rparr>"

definition post_request :: "user \<Rightarrow> int list \<Rightarrow> request" where
  "post_request u ids =
     \<lparr>user = u, http_method = ''POST'', POST_bulk_edit_obj_id = ids,
      POST_recipient_address = None\<rparr>"

definition demo_row :: "int \<Rightarrow> sendable" where
  "demo_row n =
     \<lparr>pk = n,
      columns = map_of [(''scheduled_send_time'', VNone), (''cancelled_at_send_time'', VBool False),
                        (''is_sent'', VBool False), (''message_id'', VNone),
                        (''template_id'', VInt 5), (''transport_id'', VNone)]\<rparr>"

definition demo_world :: world where
  "demo_world =
     \<lparr>sendables = [demo_row 1, demo_row 2], templates = [(5, ''Hello'')],
      log_entries = [], flash = [], send_calls = []\<rparr>"

text \<open>A table whose two rows are cancelled, and a user who is staff but not
  authenticated.\<close>

definition cancelled_row :: "int \<Rightarrow> sendable" where
  "cancelled_row n =
     \<lparr>pk = n,
      columns = map_of [(''scheduled_send_time'', VNone), (''cancelled_at_send_time'', VBool True),
                        (''is_sent'', VBool False), (''message_id'', VNone),
                        (''template_id'', VInt 5), (''transport_id'', VNone)]\<rparr>"

definition cancelled_world :: world where
  "cancelled_world = demo_world\<lparr>sendables := [cancelled_row 1, cancelled_row 2]\<rparr>"

definition unauthenticated_staff :: user where
  "unauthenticated_staff = staff_user\<lparr>is_authenticated := False\<rparr>"

text \<open>Three submissions of the bulk-edit form: one that sets the send time and leaves
  the other field empty, one that sets the send time and leaves the checkbox unchecked,
  and one with a valid field and a date/time pair that does not validate.\<close>

definition reschedule_unchecked :: "(string \<times> (string + pyval)) list" where
  "reschedule_unchecked =
     [(''scheduled_send_time'', Inr (VDateTime ''2024-01-01T10:00:00'')),
      (''cancelled_at_send_time'', Inr (VBool False))]"

definition reschedule_only :: "(string \<times> (string + pyval)) list" where
  "reschedule_only =
     [(''scheduled_send_time'', Inr (VDateTime ''2024-01-01T10:00:00'')),
      (''cancelled_at_send_time'', Inr VNone)]"

definition valid_and_malformed :: "(string \<times> (string + pyval)) list" where
  "valid_and_malformed =
     [(''cancelled_at_send_time'', Inr (VBool True)),
      (''scheduled_send_time'', Inl ''Enter a valid date/time.'')]"

section \<open>Properties of the Mailgun backend\<close>

lemma resolve_credentials_unavailable:
  assumes "\<not> credential_available ak st ''MAILGUN_ACCESS_KEY''
           \<or> \<not> credential_available sn st ''MAILGUN_SERVER_NAME''"
  shows "resolve_credentials st ak sn = Inl AttributeError"
  using assms
  by (auto simp: resolve_credentials_def credential_available_def py_or_def
      getattr_settings_def split: option.splits sum.splits)

lemma handle_response_rejected:
  assumes "status_code resp \<noteq> 200" "json_loads env (content resp) = Some (JObj kvs)"
  shows "handle_response env self resp =
     (if \<not> fail_silently self then Inl (MailgunAPIError resp) else Inr False,
      self\<lparr>failure_reason :=
             Some (json_dumps env (JObj (AList.update ''status'' (JNum (status_code resp)) kvs)))\<rparr>)"
  using assms by (simp add: handle_response_def Let_def)

lemma demo_env_rejection_dumps:
  "json_dumps (demo_env answer)
     (JObj (AList.update ''status'' (JNum (status_code rejection)) [(''message'', JStr ''bad'')]))
   = ''{'' @ [CHR 0x22] @ ''message'' @ [CHR 0x22] @ '': '' @ [CHR 0x22] @ ''bad''
     @ [CHR 0x22] @ '', '' @ [CHR 0x22] @ ''status'' @ [CHR 0x22] @ '': 400}''"
  by (simp add: demo_env_def rejection_def str_int_def str_nat.simps)

text \<open>
  C10. Constructing the backend with \<open>fail_silently=True\<close> when a credential is
  supplied neither by a keyword argument nor by the settings raises: the fail-silent
  branch unpacks \<open>None\<close> into two targets, a \<open>TypeError\<close>. The construction
  never succeeds silently without credentials. (The hypothesis covers the claim's case,
  both credentials missing, and the cases where only one is.)
\<close>

theorem init_fail_silently_without_credentials:
  assumes "\<not> credential_available ak st ''MAILGUN_ACCESS_KEY''
           \<or> \<not> credential_available sn st ''MAILGUN_SERVER_NAME''"
  shows "EmailBackend_init st True ak sn = Inl TypeError"
  using resolve_credentials_unavailable [OF assms]
  by (simp add: EmailBackend_init_def)

theorem init_fail_silently_without_credentials_witness:
  "\<not> credential_available None Map.empty ''MAILGUN_ACCESS_KEY''
   \<and> \<not> credential_available None Map.empty ''MAILGUN_SERVER_NAME''
   \<and> EmailBackend_init Map.empty True None None = Inl TypeError"
proof -
  have h: "\<not> credential_available None Map.empty ''MAILGUN_ACCESS_KEY''"
    by (simp add: credential_available_def)
  have k: "\<not> credential_available None Map.empty ''MAILGUN_SERVER_NAME''"
    by (simp add: credential_available_def)
  from h have "\<not> credential_available None Map.empty ''MAILGUN_ACCESS_KEY''
           \<or> \<not> credential_available None Map.empty ''MAILGUN_SERVER_NAME''" by simp
  from init_fail_silently_without_credentials [OF this] h k show ?thesis by simp
qed

text \<open>
  C9. A send of a message with no recipients returns \<open>False\<close>, raises nothing,
  hands no request to \<open>requests.post\<close> and leaves the backend as it was.
\<close>

theorem send_empty_recipients:
  assumes "recipients m = []"
  shows "EmailBackend_send env self m =
           \<lparr>returned = Inr False, backend_after = self, posted = []\<rparr>"
  using assms by (simp add: EmailBackend_send_def)

theorem send_empty_recipients_witness:
  "recipients no_recipients_message = []
   \<and> EmailBackend_send (demo_env (PostReturned rejection)) (demo_backend False)
         no_recipients_message =
       \<lparr>returned = Inr False, backend_after = demo_backend False, posted = []\<rparr>"
proof -
  have h: "recipients no_recipients_message = []"
    by (simp add: no_recipients_message_def)
  from send_empty_recipients [OF h] h show ?thesis by simp
qed

text \<open>
  With \<open>fail_silently\<close> off: a response whose status is not 200 and whose body
  is a JSON object makes \<open>_send\<close> raise \<open>MailgunAPIError\<close> carrying the response
  (its status code and body), after storing as \<open>failure_reason\<close> the serialized body
  with the field \<open>status\<close> set to the status code; an exception of
  \<open>requests.post\<close> is raised again as it is.
\<close>

lemma send_loud:
  assumes "\<not> fail_silently self" "recipients m \<noteq> []"
  shows "(post env (build_request env self m) = PostReturned resp
            \<and> status_code resp \<noteq> 200 \<and> json_loads env (content resp) = Some (JObj kvs)
          \<longrightarrow> returned (EmailBackend_send env self m) = Inl (MailgunAPIError resp)
              \<and> failure_reason (backend_after (EmailBackend_send env self m)) =
                  Some (json_dumps env
                          (JObj (AList.update ''status'' (JNum (status_code resp)) kvs))))
       \<and> (post env (build_request env self m) = PostRaised e
          \<longrightarrow> returned (EmailBackend_send env self m) = Inl e)"
  using assms
  by (auto simp: EmailBackend_send_def Let_def handle_response_rejected)

lemma send_loud_example:
  "\<not> fail_silently (demo_backend False) \<and> recipients demo_message \<noteq> []
   \<and> status_code rejection \<noteq> 200
   \<and> returned (EmailBackend_send (demo_env (PostReturned rejection)) (demo_backend False)
        demo_message) = Inl (MailgunAPIError rejection)
   \<and> failure_reason (backend_after (EmailBackend_send (demo_env (PostReturned rejection))
        (demo_backend False) demo_message)) =
       Some (''{'' @ [CHR 0x22] @ ''message'' @ [CHR 0x22] @ '': '' @ [CHR 0x22] @ ''bad''
             @ [CHR 0x22] @ '', '' @ [CHR 0x22] @ ''status'' @ [CHR 0x22] @ '': 400}'')"
proof -
  have a: "\<not> fail_silently (demo_backend False)" by (simp add: demo_backend_def)
  have b: "recipients demo_message \<noteq> []" by (simp add: demo_message_def)
  have c: "post (demo_env (PostReturned rejection))
             (build_request (demo_env (PostReturned rejection)) (demo_backend False) demo_message)
           = PostReturned rejection" by (simp add: demo_env_def)
  have d: "status_code rejection \<noteq> 200" by (simp add: rejection_def)
  have e: "json_loads (demo_env (PostReturned rejection)) (content rejection)
           = Some (JObj [(''message'', JStr ''bad'')])"
    by (simp add: demo_env_def rejection_def)
  from send_loud [OF a b, of "demo_env (PostReturned rejection)" rejection
      "[(''message'', JStr ''bad'')]"] a b c d e demo_env_rejection_dumps
  show ?thesis by simp
qed

text \<open>
  C6. With \<open>fail_silently\<close> off, a response whose status is not 200 does not
  always raise \<open>MailgunAPIError\<close>: on the provider's answer to a wrong access key,
  status 401 with the plain-text body \<open>Forbidden\<close>, \<open>json.loads\<close> at line 82
  raises \<open>ValueError\<close> before line 84 stores a diagnostic and before line 86 raises
  \<open>MailgunAPIError\<close>.
\<close>

theorem send_loud_non_json_body:
  "\<not> fail_silently (demo_backend False)
   \<and> recipients demo_message \<noteq> []
   \<and> post (demo_env (PostReturned forbidden))
        (build_request (demo_env (PostReturned forbidden)) (demo_backend False) demo_message)
       = PostReturned forbidden
   \<and> status_code forbidden = 401
   \<and> json_loads (demo_env (PostReturned forbidden)) (content forbidden) = None
   \<and> returned (EmailBackend_send (demo_env (PostReturned forbidden)) (demo_backend False)
        demo_message) = Inl ValueError
   \<and> returned (EmailBackend_send (demo_env (PostReturned forbidden)) (demo_backend False)
        demo_message) \<noteq> Inl (MailgunAPIError forbidden)
   \<and> failure_reason (backend_after (EmailBackend_send (demo_env (PostReturned forbidden))
        (demo_backend False) demo_message)) = None"
  by (simp add: EmailBackend_send_def handle_response_def demo_env_def demo_backend_def
      demo_message_def forbidden_def rejection_body_def Let_def)

text \<open>
  C5, as the code has it. With \<open>fail_silently\<close> on, an exception of
  \<open>requests.post\<close> makes \<open>_send\<close> return \<open>False\<close> and leaves
  \<open>failure_reason\<close> as it was (no diagnostic is recorded for it); a response whose
  status is not 200 and whose body is a JSON object makes it return \<open>False\<close> with the
  serialized body, \<open>status\<close> added, stored as \<open>failure_reason\<close>.
\<close>

theorem send_silent:
  assumes "fail_silently self" "recipients m \<noteq> []"
  shows "(post env (build_request env self m) = PostRaised e
          \<longrightarrow> returned (EmailBackend_send env self m) = Inr False
              \<and> failure_reason (backend_after (EmailBackend_send env self m)) = failure_reason self)
       \<and> (post env (build_request env self m) = PostReturned resp
            \<and> status_code resp \<noteq> 200 \<and> json_loads env (content resp) = Some (JObj kvs)
          \<longrightarrow> returned (EmailBackend_send env self m) = Inr False
              \<and> failure_reason (backend_after (EmailBackend_send env self m)) =
                  Some (json_dumps env
                          (JObj (AList.update ''status'' (JNum (status_code resp)) kvs))))"
  using assms
  by (auto simp: EmailBackend_send_def Let_def handle_response_rejected)

theorem send_silent_witness:
  "fail_silently (demo_backend True) \<and> recipients demo_message \<noteq> []
   \<and> status_code rejection \<noteq> 200
   \<and> returned (EmailBackend_send (demo_env (PostReturned rejection)) (demo_backend True)
        demo_message) = Inr False
   \<and> failure_reason (backend_after (EmailBackend_send (demo_env (PostReturned rejection))
        (demo_backend True) demo_message)) =
       Some (''{'' @ [CHR 0x22] @ ''message'' @ [CHR 0x22] @ '': '' @ [CHR 0x22] @ ''bad''
             @ [CHR 0x22] @ '', '' @ [CHR 0x22] @ ''status'' @ [CHR 0x22] @ '': 400}'')"
proof -
  have a: "fail_silently (demo_backend True)" by (simp add: demo_backend_def)
  have b: "recipients demo_message \<noteq> []" by (simp add: demo_message_def)
  have c: "post (demo_env (PostReturned rejection))
             (build_request (demo_env (PostReturned rejection)) (demo_backend True) demo_message)
           = PostReturned rejection" by (simp add: demo_env_def)
  have d: "status_code rejection \<noteq> 200" by (simp add: rejection_def)
  have e: "json_loads (demo_env (PostReturned rejection)) (content rejection)
           = Some (JObj [(''message'', JStr ''bad'')])"
    by (simp add: demo_env_def rejection_def)
  from send_silent [OF a b, of "demo_env (PostReturned rejection)" _ rejection
      "[(''message'', JStr ''bad'')]"] a b c d e demo_env_rejection_dumps
  show ?thesis by simp
qed

text \<open>
  C5 as stated fails: with \<open>fail_silently\<close> on and a network failure, the send
  returns \<open>False\<close> but no diagnostic is retained (\<open>failure_reason\<close> is still unset).
\<close>

theorem send_silent_network_failure_keeps_no_diagnostic:
  "fail_silently (demo_backend True)
   \<and> recipients demo_message \<noteq> []
   \<and> post (demo_env (PostRaised (RequestsError ''ConnectionError'')))
        (build_request (demo_env (PostRaised (RequestsError ''ConnectionError'')))
           (demo_backend True) demo_message) = PostRaised (RequestsError ''ConnectionError'')
   \<and> returned (EmailBackend_send (demo_env (PostRaised (RequestsError ''ConnectionError'')))
        (demo_backend True) demo_message) = Inr False
   \<and> failure_reason (backend_after (EmailBackend_send
        (demo_env (PostRaised (RequestsError ''ConnectionError'')))
        (demo_backend True) demo_message)) = None"
  by (simp add: EmailBackend_send_def demo_env_def demo_backend_def demo_message_def Let_def)

section \<open>Properties of the admin views\<close>


lemma truthy_not_empty: "truthy v \<Longrightarrow> \<not> is_empty v"
  by (cases v) auto

lemma sendables_add_message [simp]: "sendables (add_message lv msg w) = sendables w"
  by (simp add: add_message_def)

lemma sendables_log_action [simp]: "sendables (log_action e w) = sendables w"
  by (simp add: log_action_def)

lemma sendables_foldl_log_action [simp]:
  "sendables (foldl (\<lambda>acc sr. log_action (f sr) acc) w xs) = sendables w"
  by (induction xs arbitrary: w) simp_all

lemma log_entries_foldl_log_action:
  "log_entries (foldl (\<lambda>acc sr. log_action (f sr) acc) w xs) = log_entries w @ map f xs"
  by (induction xs arbitrary: w) (simp_all add: log_action_def)

lemma flash_foldl_log_action [simp]:
  "flash (foldl (\<lambda>acc sr. log_action (f sr) acc) w xs) = flash w"
  by (induction xs arbitrary: w) (simp_all add: log_action_def)

lemma queryset_update_empty [simp]: "queryset_update ids [] rows = rows"
  by (simp add: queryset_update_def map_idI)

lemma sendables_perform_bulk_edits:
  "sendables (snd (perform_bulk_edits self req outcomes w)) = sendables w
   \<or> sendables (snd (perform_bulk_edits self req outcomes w)) =
       queryset_update (POST_bulk_edit_obj_id req) (update_dict_of (full_clean outcomes))
         (sendables w)"
  by (simp add: perform_bulk_edits_def Let_def)

lemma queryset_update_pk: "map pk (queryset_update ids upd rows) = map pk rows"
  by (simp add: queryset_update_def)

lemma queryset_update_frame:
  assumes "f \<notin> fst ` set upd"
  shows "map (\<lambda>s. columns s f) (queryset_update ids upd rows) = map (\<lambda>s. columns s f) rows"
proof -
  from assms have "map_of upd f = None" by (simp add: map_of_eq_None_iff)
  then show ?thesis by (simp add: queryset_update_def map_add_def)
qed

lemma update_dict_keys_non_empty:
  "fst ` set (update_dict_of fm) \<subseteq> set (non_empty_fields fm)"
  by (auto simp: update_dict_of_def non_empty_fields_def dest: truthy_not_empty)

text \<open>
  C8. A bulk edit leaves untouched, on every row of the table, every column that is not
  among the fields submitted with a non-empty value: a field that is absent or submitted
  empty (blank, or an unchecked checkbox) is never written, so never cleared. The
  primary keys are unchanged too.
\<close>

theorem bulk_edit_frame:
  assumes "f \<notin> set (non_empty_fields (full_clean outcomes))"
  shows "map pk (sendables (snd (perform_bulk_edits self req outcomes w))) = map pk (sendables w)
       \<and> map (\<lambda>s. columns s f) (sendables (snd (perform_bulk_edits self req outcomes w)))
           = map (\<lambda>s. columns s f) (sendables w)"
proof -
  from assms have "f \<notin> fst ` set (update_dict_of (full_clean outcomes))"
    using update_dict_keys_non_empty by blast
  then show ?thesis
    using sendables_perform_bulk_edits [of self req outcomes w]
    by (auto simp: queryset_update_pk queryset_update_frame)
qed

lemma full_clean_reschedule_only:
  "cleaned_data (full_clean reschedule_only) =
     [(''scheduled_send_time'', VDateTime ''2024-01-01T10:00:00''),
      (''cancelled_at_send_time'', VNone)]"
  by (simp add: full_clean_def reschedule_only_def)

lemma full_clean_valid_and_malformed:
  "cleaned_data (full_clean valid_and_malformed) = [(''cancelled_at_send_time'', VBool True)]"
  by (simp add: full_clean_def valid_and_malformed_def)

lemma full_clean_reschedule_unchecked:
  "cleaned_data (full_clean reschedule_unchecked) =
     [(''scheduled_send_time'', VDateTime ''2024-01-01T10:00:00''),
      (''cancelled_at_send_time'', VBool False)]"
  by (simp add: full_clean_def reschedule_unchecked_def)

theorem bulk_edit_frame_witness:
  "''cancelled_at_send_time'' \<notin> set (non_empty_fields (full_clean reschedule_unchecked))
   \<and> map (\<lambda>s. columns s ''cancelled_at_send_time'')
       (sendables (snd (perform_bulk_edits demo_admin (post_request staff_user [1, 2])
          reschedule_unchecked cancelled_world)))
       = [Some (VBool True), Some (VBool True)]
   \<and> map (\<lambda>s. col s ''scheduled_send_time'')
       (sendables (snd (perform_bulk_edits demo_admin (post_request staff_user [1, 2])
          reschedule_unchecked cancelled_world)))
       = [VDateTime ''2024-01-01T10:00:00'', VDateTime ''2024-01-01T10:00:00'']"
proof -
  have h: "''cancelled_at_send_time'' \<notin> set (non_empty_fields (full_clean reschedule_unchecked))"
    by (simp add: non_empty_fields_def full_clean_reschedule_unchecked)
  have "map (\<lambda>s. columns s ''cancelled_at_send_time'')
       (sendables (snd (perform_bulk_edits demo_admin (post_request staff_user [1, 2])
          reschedule_unchecked cancelled_world)))
       = map (\<lambda>s. columns s ''cancelled_at_send_time'') (sendables cancelled_world)"
    using bulk_edit_frame [OF h] by blast
  then have a: "map (\<lambda>s. columns s ''cancelled_at_send_time'')
       (sendables (snd (perform_bulk_edits demo_admin (post_request staff_user [1, 2])
          reschedule_unchecked cancelled_world)))
       = [Some (VBool True), Some (VBool True)]"
    by (simp add: cancelled_world_def cancelled_row_def)
  have b: "map (\<lambda>s. col s ''scheduled_send_time'')
       (sendables (snd (perform_bulk_edits demo_admin (post_request staff_user [1, 2])
          reschedule_unchecked cancelled_world)))
       = [VDateTime ''2024-01-01T10:00:00'', VDateTime ''2024-01-01T10:00:00'']"
    by (simp add: perform_bulk_edits_def Let_def post_request_def staff_user_def
        update_dict_of_def full_clean_reschedule_unchecked queryset_update_def
        cancelled_world_def demo_world_def cancelled_row_def col_def)
  from h a b show ?thesis by simp
qed

lemma keys_clean_field:
  "fst ` set (cleaned_data (clean_field fm x)) \<subseteq>
     fst ` set (cleaned_data fm) \<union> {k. \<exists>v. x = (k, Inr v)}"
proof (cases x)
  case (Pair name r)
  then show ?thesis
  proof (cases r)
    case (Inl msg)
    with Pair show ?thesis using dom_delete_subset [of name "cleaned_data fm"] by auto
  next
    case (Inr v)
    with Pair show ?thesis by (auto simp: dom_update)
  qed
qed

lemma keys_foldl_clean_field:
  "fst ` set (cleaned_data (foldl clean_field fm xs)) \<subseteq>
     fst ` set (cleaned_data fm) \<union> {k. \<exists>v. (k, Inr v) \<in> set xs}"
proof (induction xs arbitrary: fm)
  case Nil
  then show ?case by simp
next
  case (Cons x xs)
  have "fst ` set (cleaned_data (foldl clean_field (clean_field fm x) xs)) \<subseteq>
     fst ` set (cleaned_data (clean_field fm x)) \<union> {k. \<exists>v. (k, Inr v) \<in> set xs}"
    by (rule Cons.IH)
  moreover have "{k. \<exists>v. (k, Inr v) \<in> set (x # xs)} =
      {k. \<exists>v. x = (k, Inr v)} \<union> {k. \<exists>v. (k, Inr v) \<in> set xs}"
    by auto
  ultimately show ?case
    using keys_clean_field [of fm x] by (simp only: foldl_Cons) blast
qed

lemma failed_field_dropped:
  assumes "distinct (map fst xs)" "(name, Inl msg) \<in> set xs"
  shows "name \<notin> fst ` set (cleaned_data (foldl clean_field fm xs))"
  using assms
proof (induction xs arbitrary: fm)
  case Nil
  then show ?case by simp
next
  case (Cons x xs)
  show ?case
  proof (cases "x = (name, Inl msg)")
    case True
    with Cons.prems have notin: "name \<notin> fst ` set xs" by auto
    have "name \<notin> fst ` set (cleaned_data (clean_field fm x))"
      using True by (simp add: delete_notin_dom)
    moreover have "name \<notin> {k. \<exists>v. (k, Inr v) \<in> set xs}"
      using notin by force
    ultimately show ?thesis
      using keys_foldl_clean_field [of "clean_field fm x" xs] by auto
  next
    case False
    with Cons.prems have "distinct (map fst xs)" "(name, Inl msg) \<in> set xs" by auto
    then show ?thesis using Cons.IH by simp
  qed
qed

lemma cleaned_other_field:
  "k \<notin> fst ` set xs \<Longrightarrow>
   map_of (cleaned_data (foldl clean_field fm xs)) k = map_of (cleaned_data fm) k"
proof (induction xs arbitrary: fm)
  case Nil
  then show ?case by simp
next
  case (Cons x xs)
  obtain name r where x: "x = (name, r)" by (cases x)
  from Cons.prems x have ne: "name \<noteq> k" and rest: "k \<notin> fst ` set xs" by auto
  have "map_of (cleaned_data (clean_field fm x)) k = map_of (cleaned_data fm) k"
    using ne x by (cases r) (simp_all add: update_conv')
  with Cons.IH [OF rest] show ?case by simp
qed

lemma cleaned_valid_field:
  assumes "distinct (map fst xs)" "(k, Inr v) \<in> set xs"
  shows "map_of (cleaned_data (foldl clean_field fm xs)) k = Some v"
  using assms
proof (induction xs arbitrary: fm)
  case Nil
  then show ?case by simp
next
  case (Cons x xs)
  show ?case
  proof (cases "x = (k, Inr v)")
    case True
    with Cons.prems have "k \<notin> fst ` set xs" by auto
    then have "map_of (cleaned_data (foldl clean_field (clean_field fm x) xs)) k
               = map_of (cleaned_data (clean_field fm x)) k"
      by (rule cleaned_other_field)
    with True show ?thesis by (simp add: update_conv')
  next
    case False
    with Cons.prems have "distinct (map fst xs)" "(k, Inr v) \<in> set xs" by auto
    then show ?thesis using Cons.IH by simp
  qed
qed

lemma update_dict_valid_field:
  assumes "distinct (map fst outcomes)" "(k, Inr v) \<in> set outcomes" "truthy v"
  shows "map_of (update_dict_of (full_clean outcomes)) k = Some v"
proof -
  have "map_of (cleaned_data (full_clean outcomes)) k = Some v"
    unfolding full_clean_def using assms(1,2) by (rule cleaned_valid_field)
  then show ?thesis
    unfolding update_dict_of_def using assms(3) by (rule map_of_filter_in)
qed

lemma queryset_update_applied:
  assumes "map_of upd k = Some v"
  shows "map (\<lambda>s. columns s k) (queryset_update ids upd rows)
       = map (\<lambda>s. if pk s \<in> set ids then Some v else columns s k) rows"
  using assms by (simp add: queryset_update_def map_add_def)

lemma sendables_perform_bulk_edits_operator:
  assumes "is_authenticated (user req)" "http_method req = ''POST''"
  shows "sendables (snd (perform_bulk_edits self req outcomes w)) =
           queryset_update (POST_bulk_edit_obj_id req) (update_dict_of (full_clean outcomes))
             (sendables w)"
  using assms by (simp add: perform_bulk_edits_def Let_def)

text \<open>
  C1, as the code has it. For a staff operator's POST whose form has a field that fails
  validation (a malformed or partial date/time pair): \<open>perform_bulk_edits\<close> raises no
  \<open>ValidationError\<close> and answers with the redirect; the column of the failed field
  is left as it was on every row; and every other field that cleaned to a true value is
  written to every targeted row (the rows that are not targeted keep theirs).
\<close>

theorem bulk_edit_invalid_field:
  assumes "is_authenticated (user req)" "is_staff (user req)"
    and "http_method req = ''POST''"
    and "distinct (map fst outcomes)"
    and "(name, Inl msg) \<in> set outcomes"
  shows "fst (perform_bulk_edits self req outcomes w) =
           Inr (HttpResponseRedirect (''/admin/'' @ app_label self @ ''/'' @ model_name self @ ''/''))
       \<and> map (\<lambda>s. columns s name) (sendables (snd (perform_bulk_edits self req outcomes w)))
           = map (\<lambda>s. columns s name) (sendables w)
       \<and> (\<forall>k v. (k, Inr v) \<in> set outcomes \<and> truthy v \<longrightarrow>
             map (\<lambda>s. columns s k) (sendables (snd (perform_bulk_edits self req outcomes w)))
             = map (\<lambda>s. if pk s \<in> set (POST_bulk_edit_obj_id req) then Some v else columns s k)
                 (sendables w))"
proof -
  have rows: "sendables (snd (perform_bulk_edits self req outcomes w)) =
           queryset_update (POST_bulk_edit_obj_id req) (update_dict_of (full_clean outcomes))
             (sendables w)"
    using assms(1,3) by (rule sendables_perform_bulk_edits_operator)
  have "name \<notin> fst ` set (cleaned_data (full_clean outcomes))"
    unfolding full_clean_def using assms(4,5) by (rule failed_field_dropped)
  then have "name \<notin> fst ` set (update_dict_of (full_clean outcomes))"
    by (auto simp: update_dict_of_def)
  then have a: "map (\<lambda>s. columns s name) (sendables (snd (perform_bulk_edits self req outcomes w)))
           = map (\<lambda>s. columns s name) (sendables w)"
    unfolding rows by (rule queryset_update_frame)
  have b: "fst (perform_bulk_edits self req outcomes w) =
           Inr (HttpResponseRedirect (''/admin/'' @ app_label self @ ''/'' @ model_name self @ ''/''))"
    using assms(1,3) by (simp add: perform_bulk_edits_def Let_def)
  have c: "map (\<lambda>s. columns s k) (sendables (snd (perform_bulk_edits self req outcomes w)))
             = map (\<lambda>s. if pk s \<in> set (POST_bulk_edit_obj_id req) then Some v else columns s k)
                 (sendables w)"
    if "(k, Inr v) \<in> set outcomes" "truthy v" for k v
    unfolding rows
    using update_dict_valid_field [OF assms(4) that] by (rule queryset_update_applied)
  from a b c show ?thesis by blast
qed

theorem bulk_edit_invalid_field_witness:
  "is_authenticated (user (post_request staff_user [1]))
   \<and> is_staff (user (post_request staff_user [1]))
   \<and> http_method (post_request staff_user [1]) = ''POST''
   \<and> distinct (map fst valid_and_malformed)
   \<and> (''scheduled_send_time'', Inl ''Enter a valid date/time.'') \<in> set valid_and_malformed
   \<and> (''cancelled_at_send_time'', Inr (VBool True)) \<in> set valid_and_malformed
   \<and> fst (perform_bulk_edits demo_admin (post_request staff_user [1]) valid_and_malformed
        demo_world) = Inr (HttpResponseRedirect ''/admin/emails/email/'')
   \<and> map (\<lambda>s. columns s ''scheduled_send_time'')
       (sendables (snd (perform_bulk_edits demo_admin (post_request staff_user [1])
          valid_and_malformed demo_world))) = [Some VNone, Some VNone]
   \<and> map (\<lambda>s. columns s ''cancelled_at_send_time'')
       (sendables (snd (perform_bulk_edits demo_admin (post_request staff_user [1])
          valid_and_malformed demo_world))) = [Some (VBool True), Some (VBool False)]"
proof -
  have a: "is_authenticated (user (post_request staff_user [1]))"
    and b: "is_staff (user (post_request staff_user [1]))"
    and c: "http_method (post_request staff_user [1]) = ''POST''"
    by (simp_all add: post_request_def staff_user_def)
  have d: "distinct (map fst valid_and_malformed)"
    and e: "(''scheduled_send_time'', Inl ''Enter a valid date/time.'') \<in> set valid_and_malformed"
    and f: "(''cancelled_at_send_time'', Inr (VBool True)) \<in> set valid_and_malformed"
    by (simp_all add: valid_and_malformed_def)
  have g: "truthy (VBool True)" by simp
  have ids: "POST_bulk_edit_obj_id (post_request staff_user [1]) = [1]"
    by (simp add: post_request_def)
  note th = bulk_edit_invalid_field [OF a b c d e, of demo_admin demo_world]
  from th have r: "fst (perform_bulk_edits demo_admin (post_request staff_user [1])
        valid_and_malformed demo_world) = Inr (HttpResponseRedirect ''/admin/emails/email/'')"
    by (simp add: demo_admin_def)
  from th have s: "map (\<lambda>s. columns s ''scheduled_send_time'')
       (sendables (snd (perform_bulk_edits demo_admin (post_request staff_user [1])
          valid_and_malformed demo_world))) = [Some VNone, Some VNone]"
    by (simp add: demo_world_def demo_row_def)
  from th f g have "map (\<lambda>s. columns s ''cancelled_at_send_time'')
       (sendables (snd (perform_bulk_edits demo_admin (post_request staff_user [1])
          valid_and_malformed demo_world)))
     = map (\<lambda>s. if pk s \<in> set (POST_bulk_edit_obj_id (post_request staff_user [1]))
                 then Some (VBool True) else columns s ''cancelled_at_send_time'')
         (sendables demo_world)" by blast
  then have t: "map (\<lambda>s. columns s ''cancelled_at_send_time'')
       (sendables (snd (perform_bulk_edits demo_admin (post_request staff_user [1])
          valid_and_malformed demo_world))) = [Some (VBool True), Some (VBool False)]"
    by (simp add: ids demo_world_def demo_row_def)
  from a b c d e f r s t show ?thesis by simp
qed

text \<open>
  C1 as stated fails: a batch with one valid field and one malformed date/time pair is
  not rejected; the valid field is written to both targeted rows.
\<close>

theorem bulk_edit_malformed_date_applies_other_fields:
  "(''scheduled_send_time'', Inl ''Enter a valid date/time.'') \<in> set valid_and_malformed
   \<and> fst (perform_bulk_edits demo_admin (post_request staff_user [1, 2]) valid_and_malformed
        demo_world) = Inr (HttpResponseRedirect ''/admin/emails/email/'')
   \<and> map (\<lambda>s. col s ''cancelled_at_send_time'') (sendables demo_world)
       = [VBool False, VBool False]
   \<and> map (\<lambda>s. col s ''cancelled_at_send_time'')
       (sendables (snd (perform_bulk_edits demo_admin (post_request staff_user [1, 2])
          valid_and_malformed demo_world))) = [VBool True, VBool True]"
proof -
  have a: "(''scheduled_send_time'', Inl ''Enter a valid date/time.'') \<in> set valid_and_malformed"
    by (simp add: valid_and_malformed_def)
  have b: "fst (perform_bulk_edits demo_admin (post_request staff_user [1, 2])
        valid_and_malformed demo_world) = Inr (HttpResponseRedirect ''/admin/emails/email/'')"
    by (simp add: perform_bulk_edits_def Let_def post_request_def staff_user_def demo_admin_def)
  have c: "map (\<lambda>s. col s ''cancelled_at_send_time'') (sendables demo_world)
       = [VBool False, VBool False]"
    by (simp add: col_def demo_world_def demo_row_def)
  have d: "map (\<lambda>s. col s ''cancelled_at_send_time'')
       (sendables (snd (perform_bulk_edits demo_admin (post_request staff_user [1, 2])
          valid_and_malformed demo_world))) = [VBool True, VBool True]"
    by (simp add: perform_bulk_edits_def Let_def post_request_def staff_user_def
        update_dict_of_def full_clean_valid_and_malformed queryset_update_def demo_world_def
        demo_row_def col_def)
  from a b c d show ?thesis by simp
qed

text \<open>
  C2. The count the bulk edit reports is the number of submitted ids, not the number of
  rows affected: for the ids 1, 2, 3 where no row 3 exists, two rows are updated and
  logged, and the message says 3; for the single missing id 3 nothing is updated, and the
  message says 1.
\<close>

theorem bulk_edit_count_includes_missing_ids:
  "map pk (filter_pk_in [1, 2, 3] (sendables demo_world)) = [1, 2]
   \<and> flash (snd (perform_bulk_edits demo_admin (post_request staff_user [1, 2, 3])
        reschedule_only demo_world)) = [(SUCCESS, ''3 messages updated successfully.'')]
   \<and> map object_id (log_entries (snd (perform_bulk_edits demo_admin
        (post_request staff_user [1, 2, 3]) reschedule_only demo_world))) = [1, 2]
   \<and> flash (snd (perform_bulk_edits demo_admin (post_request staff_user [3])
        reschedule_only demo_world)) = [(SUCCESS, ''1 messages updated successfully.'')]
   \<and> log_entries (snd (perform_bulk_edits demo_admin (post_request staff_user [3])
        reschedule_only demo_world)) = []"
  by (simp add: perform_bulk_edits_def Let_def post_request_def staff_user_def
      update_dict_of_def full_clean_reschedule_only queryset_update_def demo_world_def
      demo_row_def filter_pk_in_def add_message_def log_action_def bulk_edit_log_entry_def
      str_int_def str_nat.simps)

text \<open>
  The guard of \<open>perform_bulk_edits\<close> itself (line 294) lets an authenticated user
  who is not staff through; the guards of \<open>send_message\<close> and
  \<open>freeze_template\<close> reject that user. Such a request reaches none of them: the
  routes answer it first.
\<close>

lemma perform_bulk_edits_own_guard_passes_non_staff:
  "is_authenticated plain_user \<and> \<not> is_staff plain_user
   \<and> fst (perform_bulk_edits demo_admin (post_request plain_user [1, 2]) reschedule_only
        demo_world) = Inr (HttpResponseRedirect ''/admin/emails/email/'')
   \<and> map (\<lambda>s. col s ''scheduled_send_time'') (sendables demo_world) = [VNone, VNone]
   \<and> map (\<lambda>s. col s ''scheduled_send_time'')
       (sendables (snd (perform_bulk_edits demo_admin (post_request plain_user [1, 2])
          reschedule_only demo_world)))
       = [VDateTime ''2024-01-01T10:00:00'', VDateTime ''2024-01-01T10:00:00'']"
  by (simp add: perform_bulk_edits_def Let_def post_request_def plain_user_def
      update_dict_of_def full_clean_reschedule_only queryset_update_def demo_world_def
      demo_row_def col_def demo_admin_def)

lemma perform_bulk_edits_guard:
  "fst (perform_bulk_edits self req outcomes w) = Inr (HttpResponse 401)
   \<longleftrightarrow> \<not> is_authenticated (user req) \<and> is_staff (user req)"
  by (auto simp: perform_bulk_edits_def Let_def)

lemma send_message_rejects:
  assumes "\<not> is_authenticated (user req) \<or> \<not> is_staff (user req)"
  shows "send_message self req obj is_test recipient_address w =
           \<lparr>result = Inl Http404, obj_after = obj, world_after = w\<rparr>"
  using assms by (auto simp: send_message_def)

lemma freeze_template_rejects:
  assumes "\<not> is_authenticated (user req) \<or> \<not> is_staff (user req)"
  shows "freeze_template self req obj_id w = (Inl Http404, w)"
  using assms by (auto simp: freeze_template_def)

lemma get_object_or_404_error: "get_object_or_404 rows k = Inl e \<Longrightarrow> e = Http404"
  by (auto simp: get_object_or_404_def split: option.splits)

lemma send_real_message_unprivileged:
  assumes "\<not> (is_authenticated (user req) \<and> is_staff (user req))"
  shows "snd (send_real_message self obj_id req w) = w
       \<and> (http_method req = ''POST'' \<longrightarrow> fst (send_real_message self obj_id req w) = Inl Http404)"
  using assms
  by (auto simp: send_real_message_def send_message_def Let_def
      dest: get_object_or_404_error split: sum.splits)

lemma send_test_message_unprivileged:
  assumes "\<not> (is_authenticated (user req) \<and> is_staff (user req))"
  shows "snd (send_test_message self obj_id req w) = w
       \<and> (http_method req = ''POST'' \<longrightarrow> fst (send_test_message self obj_id req w) = Inl Http404)"
  using assms
  by (auto simp: send_test_message_def send_message_def Let_def
      dest: get_object_or_404_error split: sum.splits)

lemma perform_bulk_edits_staff_unauthenticated:
  assumes "\<not> is_authenticated (user req)" "is_staff (user req)"
  shows "perform_bulk_edits self req outcomes w = (Inr (HttpResponse 401), w)"
  using assms by (simp add: perform_bulk_edits_def)

text \<open>
  C4. On every mutating route (bulk edit, freeze, real send, test send) a caller who is
  not an authenticated staff user changes nothing: no row, no template, no log entry, no
  message and no call of \<open>obj.send\<close>. The bulk edit and the freeze answer with a
  denial (the login of the admin site, status 401 or \<open>Http404\<close>), and so does a POST
  to either send route. A user who is not staff is answered by \<open>admin_view\<close> before
  the view runs; a staff user who is not authenticated is answered by the guard of the
  view.
\<close>

theorem unprivileged_caller_is_rejected:
  assumes "\<not> (is_authenticated (user req) \<and> is_staff (user req))"
  shows "access_denied (fst (bulk_edits_route self outcomes req w))
       \<and> snd (bulk_edits_route self outcomes req w) = w
       \<and> access_denied (fst (freeze_template_route self obj_id req w))
       \<and> snd (freeze_template_route self obj_id req w) = w
       \<and> snd (send_real_route self obj_id req w) = w
       \<and> snd (send_test_route self obj_id req w) = w
       \<and> (http_method req = ''POST'' \<longrightarrow>
            access_denied (fst (send_real_route self obj_id req w))
            \<and> access_denied (fst (send_test_route self obj_id req w)))"
proof (cases "is_active (user req) \<and> is_staff (user req)")
  case False
  then show ?thesis
    by (simp add: bulk_edits_route_def freeze_template_route_def send_real_route_def
        send_test_route_def admin_view_def access_denied_def)
next
  case True
  with assms have na: "\<not> is_authenticated (user req)" and st: "is_staff (user req)" by auto
  from na have or: "\<not> is_authenticated (user req) \<or> \<not> is_staff (user req)" by simp
  have a: "bulk_edits_route self outcomes req w = (Inr (HttpResponse 401), w)"
    using True perform_bulk_edits_staff_unauthenticated [OF na st]
    by (simp add: bulk_edits_route_def admin_view_def)
  have b: "freeze_template_route self obj_id req w = (Inl Http404, w)"
    using True freeze_template_rejects [OF or]
    by (simp add: freeze_template_route_def admin_view_def)
  have c: "send_real_route self obj_id req w = send_real_message self obj_id req w"
    and d: "send_test_route self obj_id req w = send_test_message self obj_id req w"
    using True by (simp_all add: send_real_route_def send_test_route_def admin_view_def)
  from a b send_real_message_unprivileged [OF assms, of self obj_id w]
    send_test_message_unprivileged [OF assms, of self obj_id w]
  show ?thesis by (simp add: c d access_denied_def)
qed

theorem unprivileged_caller_is_rejected_witness:
  "\<not> (is_authenticated (user (post_request plain_user [1, 2]))
       \<and> is_staff (user (post_request plain_user [1, 2])))
   \<and> fst (bulk_edits_route demo_admin reschedule_only (post_request plain_user [1, 2])
        demo_world) = Inr AdminLogin
   \<and> snd (bulk_edits_route demo_admin reschedule_only (post_request plain_user [1, 2])
        demo_world) = demo_world
   \<and> snd (freeze_template_route demo_admin 1 (post_request plain_user [1, 2]) demo_world)
       = demo_world
   \<and> snd (send_real_route demo_admin 1 (post_request plain_user [1, 2]) demo_world)
       = demo_world
   \<and> \<not> (is_authenticated (user (post_request unauthenticated_staff [1, 2]))
       \<and> is_staff (user (post_request unauthenticated_staff [1, 2])))
   \<and> fst (bulk_edits_route demo_admin reschedule_only
        (post_request unauthenticated_staff [1, 2]) demo_world) = Inr (HttpResponse 401)
   \<and> snd (bulk_edits_route demo_admin reschedule_only
        (post_request unauthenticated_staff [1, 2]) demo_world) = demo_world
   \<and> fst (send_real_route demo_admin 1 (post_request unauthenticated_staff [1, 2])
        demo_world) = Inl Http404"
proof -
  have h: "\<not> (is_authenticated (user (post_request plain_user [1, 2]))
       \<and> is_staff (user (post_request plain_user [1, 2])))"
    by (simp add: post_request_def plain_user_def)
  have k: "\<not> (is_authenticated (user (post_request unauthenticated_staff [1, 2]))
       \<and> is_staff (user (post_request unauthenticated_staff [1, 2])))"
    by (simp add: post_request_def unauthenticated_staff_def)
  have a: "fst (bulk_edits_route demo_admin reschedule_only (post_request plain_user [1, 2])
        demo_world) = Inr AdminLogin"
    by (simp add: bulk_edits_route_def admin_view_def post_request_def plain_user_def)
  have b: "fst (bulk_edits_route demo_admin reschedule_only
        (post_request unauthenticated_staff [1, 2]) demo_world) = Inr (HttpResponse 401)"
    by (simp add: bulk_edits_route_def admin_view_def post_request_def
        unauthenticated_staff_def staff_user_def perform_bulk_edits_def)
  have c: "fst (send_real_route demo_admin 1 (post_request unauthenticated_staff [1, 2])
        demo_world) = Inl Http404"
    by (simp add: send_real_route_def admin_view_def post_request_def
        unauthenticated_staff_def staff_user_def send_real_message_def send_message_def
        get_object_or_404_def demo_world_def demo_row_def)
  from unprivileged_caller_is_rejected [OF h, of demo_admin reschedule_only demo_world 1]
    unprivileged_caller_is_rejected [OF k, of demo_admin reschedule_only demo_world 1]
    h k a b c
  show ?thesis by blast
qed

text \<open>
  C7. A test send by a staff operator with no e-mail address adds the error message
  "Current Admin user does not have a specified email address." and redirects to the
  change page; \<open>obj.send\<close> is not called, the object (so its \<open>is_sent\<close>), the
  table and the admin log are unchanged.
\<close>

theorem send_test_without_operator_email:
  assumes "is_authenticated (user req)" "is_staff (user req)" "is_test" "email (user req) = []"
  shows "result (send_message self req obj is_test recipient_address w) =
           Inr (HttpResponseRedirect (change_url self (pk obj)))
       \<and> flash (world_after (send_message self req obj is_test recipient_address w)) =
           flash w @ [(ERROR, ''Current Admin user does not have a specified email address.'')]
       \<and> send_calls (world_after (send_message self req obj is_test recipient_address w)) =
           send_calls w
       \<and> sendables (world_after (send_message self req obj is_test recipient_address w)) =
           sendables w
       \<and> log_entries (world_after (send_message self req obj is_test recipient_address w)) =
           log_entries w
       \<and> obj_after (send_message self req obj is_test recipient_address w) = obj"
  using assms by (simp add: send_message_def add_message_def)

theorem send_test_without_operator_email_witness:
  "is_authenticated (user (post_request staff_user_no_email []))
   \<and> is_staff (user (post_request staff_user_no_email []))
   \<and> email (user (post_request staff_user_no_email [])) = []
   \<and> flash (world_after (send_message demo_admin (post_request staff_user_no_email [])
        (demo_row 1) True (Some ''a@x.com'') demo_world)) =
       [(ERROR, ''Current Admin user does not have a specified email address.'')]
   \<and> send_calls (world_after (send_message demo_admin (post_request staff_user_no_email [])
        (demo_row 1) True (Some ''a@x.com'') demo_world)) = []
   \<and> col (obj_after (send_message demo_admin (post_request staff_user_no_email [])
        (demo_row 1) True (Some ''a@x.com'') demo_world)) ''is_sent'' = VBool False"
proof -
  have a: "is_authenticated (user (post_request staff_user_no_email []))"
    and b: "is_staff (user (post_request staff_user_no_email []))"
    and c: "email (user (post_request staff_user_no_email [])) = []"
    by (simp_all add: post_request_def staff_user_no_email_def staff_user_def)
  have d: "True" by simp
  from send_test_without_operator_email [OF a b d c, of demo_admin "demo_row 1"
      "Some ''a@x.com''" demo_world] a b c
  show ?thesis by (simp add: demo_world_def demo_row_def col_def)
qed

lemma fold_max_ge: "(a::int) \<le> fold max xs a"
proof (induction xs arbitrary: a)
  case Nil
  then show ?case by simp
next
  case (Cons x xs)
  have "max x a \<le> fold max xs (max x a)" by (rule Cons.IH)
  then show ?case by simp
qed

lemma fold_max_upper: "(x::int) \<in> set xs \<Longrightarrow> x \<le> fold max xs a"
proof (induction xs arbitrary: a)
  case Nil
  then show ?case by simp
next
  case (Cons y ys)
  show ?case
  proof (cases "x = y")
    case True
    have "max y a \<le> fold max ys (max y a)" by (rule fold_max_ge)
    with True show ?thesis by simp
  next
    case False
    with Cons.prems have "x \<in> set ys" by simp
    then show ?thesis using Cons.IH by simp
  qed
qed

lemma fresh_id_is_new: "t \<in> fst ` set ts \<Longrightarrow> fresh_id ts \<noteq> t"
proof -
  assume "t \<in> fst ` set ts"
  then have "t \<in> set (map fst ts)" by simp
  then have "t \<le> fold max (map fst ts) 0" by (rule fold_max_upper)
  then show ?thesis by (simp add: fresh_id_def)
qed

lemma find_pk_replaced:
  assumes "find (\<lambda>s. pk s = k) rows = Some obj" "pk obj' = k"
  shows "find (\<lambda>s. pk s = k) (map (\<lambda>s. if pk s = k then obj' else s) rows) = Some obj'"
  using assms by (induction rows) (auto split: if_splits)

lemma get_object_pk: "get_object_or_404 rows k = Inr obj \<Longrightarrow> pk obj = k"
  by (auto simp: get_object_or_404_def find_Some_iff split: option.splits)

text \<open>
  C3, as the code has it. When \<open>freeze_template\<close> succeeds, exactly one entry is
  added to the admin log, and its change message names the template id the object has
  after the freeze: the id of the new private copy, which differs from the id of the
  original template.
\<close>

theorem freeze_template_logs_copy_id:
  assumes "fst (freeze_template self req obj_id w) = Inr resp"
  shows "\<exists>obj t e obj'.
           get_object_or_404 (sendables w) obj_id = Inr obj
         \<and> col obj ''template_id'' = VInt t
         \<and> fresh_id (templates w) \<noteq> t
         \<and> get_object_or_404 (sendables (snd (freeze_template self req obj_id w))) obj_id
             = Inr obj'
         \<and> col obj' ''template_id'' = VInt (fresh_id (templates w))
         \<and> log_entries (snd (freeze_template self req obj_id w)) = log_entries w @ [e]
         \<and> change_message e =
             ''Froze TemplateId:'' @ str_int (fresh_id (templates w)) @ '' for customization''"
proof -
  from assms have auth: "is_authenticated (user req)" "is_staff (user req)"
    by (auto simp: freeze_template_def split: if_splits)
  from assms auth obtain obj where obj: "get_object_or_404 (sendables w) obj_id = Inr obj"
    by (auto simp: freeze_template_def split: sum.splits)
  from assms auth obj obtain obj' w1 where fr: "obj_freeze_template obj w = Inr (obj', w1)"
    by (auto simp: freeze_template_def split: sum.splits)
  from fr obtain t body where t: "col obj ''template_id'' = VInt t"
    and body: "map_of (templates w) t = Some body"
    by (auto simp: obj_freeze_template_def split: pyval.splits option.splits)
  from body have "t \<in> fst ` set (templates w)"
    by (metis domI dom_map_of_conv_image_fst)
  then have new: "fresh_id (templates w) \<noteq> t" by (rule fresh_id_is_new)
  from fr t body have obj': "obj' = obj\<lparr>columns := (columns obj)(''template_id'' \<mapsto> VInt (fresh_id (templates w)))\<rparr>"
    and w1: "w1 = w\<lparr>templates := templates w @ [(fresh_id (templates w), body)],
                    sendables := map (\<lambda>s. if pk s = pk obj then obj' else s) (sendables w)\<rparr>"
    by (auto simp: obj_freeze_template_def Let_def)
  have pk: "pk obj = obj_id" using obj by (rule get_object_pk)
  from obj have found: "find (\<lambda>s. pk s = obj_id) (sendables w) = Some obj"
    by (auto simp: get_object_or_404_def split: option.splits)
  have pk': "pk obj' = obj_id" using obj' pk by simp
  have after: "get_object_or_404 (sendables w1) obj_id = Inr obj'"
    using find_pk_replaced [OF found pk'] pk by (simp add: w1 get_object_or_404_def)
  have c': "col obj' ''template_id'' = VInt (fresh_id (templates w))"
    by (simp add: obj' col_def)
  define e where "e = \<lparr>user_id = user_pk (user req),
                      content_type_id = content_type_pk self,
                      object_id = obj_id,
                      object_repr = unicode self obj',
                      action_flag = CHANGE,
                      change_message =
                        ''Froze TemplateId:'' @ str_pyval (col obj' ''template_id'')
                        @ '' for customization''\<rparr>"
  have run: "snd (freeze_template self req obj_id w) = log_action e w1"
    using auth obj fr by (simp add: freeze_template_def e_def)
  have "log_entries (snd (freeze_template self req obj_id w)) = log_entries w @ [e]"
    by (simp add: run log_action_def w1)
  moreover have "get_object_or_404 (sendables (snd (freeze_template self req obj_id w))) obj_id
             = Inr obj'"
    by (simp add: run after)
  moreover have "change_message e =
      ''Froze TemplateId:'' @ str_int (fresh_id (templates w)) @ '' for customization''"
    by (simp add: e_def c')
  ultimately show ?thesis using obj t new c' by blast
qed

theorem freeze_template_logs_copy_id_witness:
  "fst (freeze_template demo_admin (post_request staff_user []) 1 demo_world)
     = Inr (HttpResponseRedirect ''admin:emails_email_change/1'')
   \<and> (\<exists>obj t e obj'.
           get_object_or_404 (sendables demo_world) 1 = Inr obj
         \<and> col obj ''template_id'' = VInt t
         \<and> fresh_id (templates demo_world) \<noteq> t
         \<and> get_object_or_404 (sendables (snd (freeze_template demo_admin
               (post_request staff_user []) 1 demo_world))) 1 = Inr obj'
         \<and> col obj' ''template_id'' = VInt (fresh_id (templates demo_world))
         \<and> log_entries (snd (freeze_template demo_admin (post_request staff_user []) 1
               demo_world)) = log_entries demo_world @ [e]
         \<and> change_message e =
             ''Froze TemplateId:'' @ str_int (fresh_id (templates demo_world))
             @ '' for customization'')"
proof -
  have h: "fst (freeze_template demo_admin (post_request staff_user []) 1 demo_world)
     = Inr (HttpResponseRedirect ''admin:emails_email_change/1'')"
    by (simp add: freeze_template_def post_request_def staff_user_def demo_world_def
        demo_row_def get_object_or_404_def obj_freeze_template_def col_def Let_def
        change_url_def demo_admin_def admin_view_info_def str_int_def str_nat.simps)
  from freeze_template_logs_copy_id [OF h] h show ?thesis by blast
qed

text \<open>
  C3 as stated fails: freezing the template of row 1, which references template 5, logs
  "Froze TemplateId:6 for customization", the id of the copy.
\<close>

theorem freeze_template_log_names_the_copy:
  "col (demo_row 1) ''template_id'' = VInt 5
   \<and> get_object_or_404 (sendables demo_world) 1 = Inr (demo_row 1)
   \<and> fst (freeze_template demo_admin (post_request staff_user []) 1 demo_world)
       = Inr (HttpResponseRedirect ''admin:emails_email_change/1'')
   \<and> map change_message
       (log_entries (snd (freeze_template demo_admin (post_request staff_user []) 1 demo_world)))
       = [''Froze TemplateId:6 for customization'']
   \<and> ''Froze TemplateId:6 for customization'' \<noteq> ''Froze TemplateId:5 for customization''"
  by (simp add: freeze_template_def post_request_def staff_user_def demo_world_def
      demo_row_def get_object_or_404_def obj_freeze_template_def col_def Let_def
      change_url_def demo_admin_def admin_view_info_def str_int_def str_nat.simps
      fresh_id_def log_action_def)

end
